theory Spec2Isabelle
  imports Complex_Main "HOL-Library.Sublist" "HOL-Library.Log_Nat"
begin

section \<open>Data model\<close>

text \<open>
  The application keeps a product catalogue fetched from a REST endpoint in a shared
  context, filters it by a search text and derives two figures per product. Two screens
  are embedded here: the component \<open>PostsList\<close> of \<open>src/components/PostsList.tsx\<close>
  (\<open>fetchProducts\<close>, \<open>handleSearch\<close>, \<open>renderProduct\<close>) and the component
  \<open>AppContent\<close> of \<open>src/unnamed/part_000\<close> (\<open>fetchPosts\<close>).
\<close>

subsection \<open>Numbers\<close>

text \<open>
  A JavaScript number is an IEEE 754 binary64 value: a finite value (kept here as the
  rational it denotes), \<open>NaN\<close> or an infinity. The two zeros are not told apart; no
  expression of the source can tell them apart either, since its divisors are the
  constant 100 and the length of an array.
\<close>

datatype jsnumber = Finite rat | NaN | PosInfinity | NegInfinity

text \<open>Rounding a rational to the nearest integer, a tie going to the even one.\<close>

definition rne :: "rat \<Rightarrow> int" where
  "rne q =
     (let f = \<lfloor>q\<rfloor>; d = q - of_int f
      in if d < 1 / 2 then f
         else if 1 / 2 < d then f + 1
         else if even f then f else f + 1)"

text \<open>
  The binary exponent of a positive rational \<open>a\<close>: the \<open>e\<close> with
  \<open>2 ^ e \<le> a < 2 ^ (e + 1)\<close>, computed from the bit length of an integer.
\<close>

definition expo :: "rat \<Rightarrow> int" where
  "expo a =
     (if 1 \<le> a then int (floorlog 2 (nat \<lfloor>a\<rfloor>)) - 1
      else - int (floorlog 2 (nat (\<lceil>1 / a\<rceil> - 1))))"

text \<open>
  The spacing of the doubles around a positive \<open>a\<close>: 52 fraction bits below the
  exponent, which is not allowed to fall below -1022 (the subnormal range).
\<close>

definition ulp :: "rat \<Rightarrow> rat" where
  "ulp a = power_int 2 (max (expo a) (- 1022) - 52)"

definition round_pos :: "rat \<Rightarrow> rat" where
  "round_pos a = of_int (rne (a / ulp a)) * ulp a"

text \<open>
  The result of an arithmetic operation whose exact value is \<open>x\<close>: the nearest double,
  ties to even, and an infinity when the rounded magnitude reaches \<open>2 ^ 1024\<close>, that
  is, when its exponent reaches 1024.
\<close>

definition fl :: "rat \<Rightarrow> jsnumber" where
  "fl x =
     (if x = 0 then Finite 0
      else if 0 < x
        then (if 1024 \<le> expo (round_pos x) then PosInfinity else Finite (round_pos x))
        else (if 1024 \<le> expo (round_pos (- x)) then NegInfinity
              else Finite (- round_pos (- x))))"

text \<open>The rationals that are doubles: rounding leaves them as they are.\<close>

definition is_double :: "rat \<Rightarrow> bool" where
  "is_double x = (fl x = Finite x)"

definition infinity :: "bool \<Rightarrow> jsnumber" where
  "infinity positive = (if positive then PosInfinity else NegInfinity)"

text \<open>The operators \<open>+\<close>, \<open>-\<close>, \<open>*\<close> and \<open>/\<close> on numbers.\<close>

fun js_add :: "jsnumber \<Rightarrow> jsnumber \<Rightarrow> jsnumber" where
  "js_add (Finite a) (Finite b) = fl (a + b)"
| "js_add NaN y = NaN"
| "js_add x NaN = NaN"
| "js_add PosInfinity NegInfinity = NaN"
| "js_add NegInfinity PosInfinity = NaN"
| "js_add PosInfinity y = PosInfinity"
| "js_add NegInfinity y = NegInfinity"
| "js_add (Finite a) y = y"

fun js_sub :: "jsnumber \<Rightarrow> jsnumber \<Rightarrow> jsnumber" where
  "js_sub (Finite a) (Finite b) = fl (a - b)"
| "js_sub NaN y = NaN"
| "js_sub x NaN = NaN"
| "js_sub PosInfinity PosInfinity = NaN"
| "js_sub NegInfinity NegInfinity = NaN"
| "js_sub PosInfinity y = PosInfinity"
| "js_sub NegInfinity y = NegInfinity"
| "js_sub (Finite a) PosInfinity = NegInfinity"
| "js_sub (Finite a) NegInfinity = PosInfinity"

fun js_mul :: "jsnumber \<Rightarrow> jsnumber \<Rightarrow> jsnumber" where
  "js_mul (Finite a) (Finite b) = fl (a * b)"
| "js_mul NaN y = NaN"
| "js_mul x NaN = NaN"
| "js_mul PosInfinity (Finite b) = (if b = 0 then NaN else infinity (0 < b))"
| "js_mul NegInfinity (Finite b) = (if b = 0 then NaN else infinity (b < 0))"
| "js_mul (Finite a) PosInfinity = (if a = 0 then NaN else infinity (0 < a))"
| "js_mul (Finite a) NegInfinity = (if a = 0 then NaN else infinity (a < 0))"
| "js_mul PosInfinity PosInfinity = PosInfinity"
| "js_mul NegInfinity NegInfinity = PosInfinity"
| "js_mul PosInfinity NegInfinity = NegInfinity"
| "js_mul NegInfinity PosInfinity = NegInfinity"

text \<open>
  A zero divisor is the positive zero: in HOL \<open>x / 0 = 0\<close>, so JavaScript's outcome is
  written out.
\<close>

fun js_div :: "jsnumber \<Rightarrow> jsnumber \<Rightarrow> jsnumber" where
  "js_div (Finite a) (Finite b) =
     (if b \<noteq> 0 then fl (a / b) else if a = 0 then NaN else infinity (0 < a))"
| "js_div NaN y = NaN"
| "js_div x NaN = NaN"
| "js_div PosInfinity (Finite b) = infinity (0 \<le> b)"
| "js_div NegInfinity (Finite b) = infinity (b < 0)"
| "js_div (Finite a) y = Finite 0"
| "js_div x y = NaN"

subsection \<open>Items and parsed values\<close>

record Review =
  rating :: jsnumber

text \<open>
  Modelled from the spec: the declaration of \<open>Product\<close> in \<open>types/types.ts\<close> is not
  among the sources. The fields are those of the Item of the data model, named as
  \<open>renderProduct\<close> reads them (\<open>item_id\<close> and \<open>item_image\<close> are its \<open>id\<close> and
  \<open>image\<close>). An object that arrives from the network may lack a property whatever the
  declared type says; \<open>title\<close> and \<open>reviews\<close> are therefore optional here (\<open>None\<close> is
  JavaScript's \<open>undefined\<close>): \<open>reviews\<close> because the source tests it, \<open>title\<close> because
  the source dereferences it.
\<close>

record Product =
  item_id :: nat
  title :: "string option"
  brand :: string
  price :: jsnumber
  discountPercentage :: jsnumber
  category :: string
  description :: string
  stock :: nat
  reviews :: "Review list option"
  warrantyInformation :: string
  shippingInformation :: string
  item_image :: string

text \<open>
  A value as \<open>response.json()\<close> delivers it. An array is an array of item objects; an
  object is the list of its members in the order of the text, where a later member
  overrides an earlier one of the same name.
\<close>

datatype jsvalue =
    JNull
  | JBool bool
  | JNumber jsnumber
  | JString string
  | JArray "Product list"
  | JObject "(string \<times> jsvalue) list"

text \<open>
  The exceptions of the model: \<open>fetch\<close> rejects with a \<open>TypeError\<close> when the request
  cannot be made, \<open>response.json()\<close> rejects with a \<open>SyntaxError\<close> when the body is not
  JSON, and a read or call on \<open>undefined\<close> or \<open>null\<close> raises a \<open>TypeError\<close>.
\<close>

datatype jserror = TypeError | SyntaxError

text \<open>
  What the two awaits \<open>fetch(url)\<close> and \<open>response.json()\<close> can deliver: the first
  rejects, the second rejects, or the parsed body.
\<close>

datatype response = FetchRejected | JsonRejected | Body jsvalue

text \<open>The truthiness test of \<open>&&\<close>, \<open>?:\<close> and \<open>if\<close>.\<close>

fun truthy :: "jsvalue \<Rightarrow> bool" where
  "truthy JNull = False"
| "truthy (JBool b) = b"
| "truthy (JNumber n) = (n \<noteq> Finite 0 \<and> n \<noteq> NaN)"
| "truthy (JString s) = (s \<noteq> [])"
| "truthy (JArray xs) = True"
| "truthy (JObject kvs) = True"

text \<open>
  The property read \<open>data.products\<close>: a \<open>TypeError\<close> on \<open>null\<close>, the member of an
  object (the last one of that name), and \<open>undefined\<close> (\<open>None\<close>) on every other value.
\<close>

fun get_products :: "jsvalue \<Rightarrow> jserror + jsvalue option" where
  "get_products JNull = Inl TypeError"
| "get_products (JObject kvs) = Inr (map_of (rev kvs) ''products'')"
| "get_products v = Inr None"

section \<open>Strings\<close>

text \<open>
  \<open>String.prototype.toLowerCase\<close> on the ASCII letters; every other character is left
  as it is.
\<close>

definition lower_char :: "char \<Rightarrow> char" where
  "lower_char c =
     (let n = (of_char c :: nat) in if 65 \<le> n \<and> n \<le> 90 then char_of (n + 32) else c)"

definition toLowerCase :: "string \<Rightarrow> string" where
  "toLowerCase s = map lower_char s"

text \<open>\<open>s.includes(t)\<close>: \<open>t\<close> occurs in \<open>s\<close> as a contiguous run of characters.\<close>

definition string_includes :: "string \<Rightarrow> string \<Rightarrow> bool" where
  "string_includes s t = sublist t s"

section \<open>The search handler of PostsList\<close>

record PostsList_state =
  products :: jsvalue
  loading :: bool
  error :: "string option"
  searchTerm :: string
  filteredProducts :: jsvalue

text \<open>
  The callback of the filter,
  \<open>(product) => product.title.toLowerCase().includes(text.toLowerCase())\<close>:
  calling \<open>toLowerCase\<close> on an absent title raises.
\<close>

definition title_matches :: "string \<Rightarrow> Product \<Rightarrow> jserror + bool" where
  "title_matches text product =
     (case title product of
        None \<Rightarrow> Inl TypeError
      | Some t \<Rightarrow> Inr (string_includes (toLowerCase t) (toLowerCase text)))"

text \<open>
  \<open>Array.prototype.filter\<close> with a callback that may raise: the elements are visited in
  order, and the first exception ends the call.
\<close>

fun array_filter :: "('a \<Rightarrow> jserror + bool) \<Rightarrow> 'a list \<Rightarrow> jserror + 'a list" where
  "array_filter f [] = Inr []"
| "array_filter f (x # xs) =
     (case f x of
        Inl e \<Rightarrow> Inl e
      | Inr b \<Rightarrow>
          (case array_filter f xs of
             Inl e \<Rightarrow> Inl e
           | Inr ys \<Rightarrow> Inr (if b then x # ys else ys)))"

text \<open>
  \<open>products.filter(...)\<close> on the value held by the context: only an array has the
  method. An exception leaves the handler at once; the model returns it in place of the
  state.
\<close>

fun filtered :: "string \<Rightarrow> jsvalue \<Rightarrow> jserror + jsvalue" where
  "filtered text (JArray ps) =
     (case array_filter (title_matches text) ps of
        Inl e \<Rightarrow> Inl e
      | Inr ys \<Rightarrow> Inr (JArray ys))"
| "filtered text v = Inl TypeError"

definition handleSearch :: "string \<Rightarrow> PostsList_state \<Rightarrow> jserror + PostsList_state" where
  "handleSearch text s =
     (let s1 = s\<lparr>searchTerm := text\<rparr> in
      if text = [] then Inr (s1\<lparr>filteredProducts := products s1\<rparr>)
      else (case filtered text (products s1) of
              Inl e \<Rightarrow> Inl e
            | Inr v \<Rightarrow> Inr (s1\<lparr>filteredProducts := v\<rparr>)))"

section \<open>The figures derived by renderProduct\<close>

text \<open>
  \<open>item.price - (item.price * (item.discountPercentage / 100))\<close>: three operations,
  each rounded.
\<close>

definition discountedPrice :: "Product \<Rightarrow> jsnumber" where
  "discountedPrice item =
     js_sub (price item) (js_mul (price item) (js_div (discountPercentage item) (Finite 100)))"

text \<open>
  \<open>item.reviews ? item.reviews.reduce((acc, review) => acc + review.rating, 0)
  / item.reviews.length : 0\<close>. An array is truthy also when it is empty.
\<close>

definition averageRating :: "Product \<Rightarrow> jsnumber" where
  "averageRating item =
     (case reviews item of
        Some rs \<Rightarrow>
          js_div (foldl (\<lambda>acc review. js_add acc (rating review)) (Finite 0) rs)
                 (Finite (of_nat (length rs)))
      | None \<Rightarrow> Finite 0)"

section \<open>The fetch of PostsList\<close>

text \<open>
  The value of \<open>data && data.products\<close>: \<open>data\<close> itself when it is falsy, the property
  otherwise (\<open>None\<close> is \<open>undefined\<close>, which is falsy).
\<close>

definition data_and_products :: "jsvalue \<Rightarrow> jserror + jsvalue option" where
  "data_and_products data = (if truthy data then get_products data else Inr (Some data))"

text \<open>
  The body of the \<open>try\<close> of \<open>fetchProducts\<close>. Where the condition holds, its value \<open>v\<close>
  is \<open>data.products\<close>, which is what both setters receive.
\<close>

definition fetchProducts_try :: "response \<Rightarrow> PostsList_state \<Rightarrow> jserror + PostsList_state" where
  "fetchProducts_try r s =
     (case r of
        FetchRejected \<Rightarrow> Inl TypeError
      | JsonRejected \<Rightarrow> Inl SyntaxError
      | Body data \<Rightarrow>
          (case data_and_products data of
             Inl e \<Rightarrow> Inl e
           | Inr None \<Rightarrow> Inr (s\<lparr>error := Some ''No products found.'', loading := False\<rparr>)
           | Inr (Some v) \<Rightarrow>
               if truthy v
               then Inr (s\<lparr>products := v, filteredProducts := v, loading := False\<rparr>)
               else Inr (s\<lparr>error := Some ''No products found.'', loading := False\<rparr>)))"

definition fetchProducts :: "response \<Rightarrow> PostsList_state \<Rightarrow> PostsList_state" where
  "fetchProducts r s =
     (case fetchProducts_try r s of
        Inr s' \<Rightarrow> s'
      | Inl e \<Rightarrow> s\<lparr>error := Some ''Failed to load products.'', loading := False\<rparr>)"

section \<open>The fetch of AppContent\<close>

text \<open>
  The state of \<open>AppContent\<close>; \<open>app_loading\<close> and \<open>app_error\<close> are its \<open>loading\<close> and
  \<open>error\<close>.
\<close>

record AppContent_state =
  posts :: jsvalue
  search :: string
  app_loading :: bool
  app_error :: "string option"

text \<open>
  \<open>products.slice(0, 30)\<close>: arrays and strings have the method; on every other value,
  and on \<open>undefined\<close>, the call raises.
\<close>

fun slice_0_30 :: "jsvalue option \<Rightarrow> jserror + jsvalue" where
  "slice_0_30 (Some (JArray xs)) = Inr (JArray (take 30 xs))"
| "slice_0_30 (Some (JString s)) = Inr (JString (take 30 s))"
| "slice_0_30 v = Inl TypeError"

definition fetchPosts_try :: "response \<Rightarrow> AppContent_state \<Rightarrow> jserror + AppContent_state" where
  "fetchPosts_try r s =
     (case r of
        FetchRejected \<Rightarrow> Inl TypeError
      | JsonRejected \<Rightarrow> Inl SyntaxError
      | Body json \<Rightarrow>
          (case get_products json of
             Inl e \<Rightarrow> Inl e
           | Inr prods \<Rightarrow>
               (case slice_0_30 prods of
                  Inl e \<Rightarrow> Inl e
                | Inr v \<Rightarrow> Inr (s\<lparr>posts := v\<rparr>))))"

definition fetchPosts :: "response \<Rightarrow> AppContent_state \<Rightarrow> AppContent_state" where
  "fetchPosts r s =
     (let s1 = s\<lparr>app_loading := True\<rparr>;
          s2 = s1\<lparr>app_error := None\<rparr>;
          s3 = (case fetchPosts_try r s2 of
                  Inr s' \<Rightarrow> s'
                | Inl e \<Rightarrow> s2\<lparr>app_error := Some ''Failed to fetch products. Please try again.''\<rparr>)
      in s3\<lparr>app_loading := False\<rparr>)"

section \<open>Notions used by the properties\<close>

text \<open>Every item of the list has a display name.\<close>

definition all_titled :: "Product list \<Rightarrow> bool" where
  "all_titled L = list_all (\<lambda>p. title p \<noteq> None) L"

text \<open>
  The item has a display name, and the lower-case form of that name contains the
  lower-case form of the query as a substring.
\<close>

definition name_contains :: "string \<Rightarrow> Product \<Rightarrow> bool" where
  "name_contains q p =
     (case title p of
        None \<Rightarrow> False
      | Some t \<Rightarrow> string_includes (toLowerCase t) (toLowerCase q))"

text \<open>
  The visible list after a search-text change, or the exception of the handler.
\<close>

definition visible :: "string \<Rightarrow> PostsList_state \<Rightarrow> jserror + jsvalue" where
  "visible q s = map_sum (\<lambda>e. e) filteredProducts (handleSearch q s)"

text \<open>
  A fetch that fails, in the words of the spec: the request is rejected (transport
  error), or the response body is malformed, that is, it is not JSON or the expected
  item collection is missing from it or is not a collection.
\<close>

definition malformed_body :: "jsvalue \<Rightarrow> bool" where
  "malformed_body data =
     (case get_products data of Inr (Some (JArray xs)) \<Rightarrow> False | _ \<Rightarrow> True)"

fun fetch_failure :: "response \<Rightarrow> bool" where
  "fetch_failure FetchRejected = True"
| "fetch_failure JsonRejected = True"
| "fetch_failure (Body data) = malformed_body data"

text \<open>
  The part of it where there is nothing under \<open>products\<close> at all: no response, no
  JSON, or no such member.
\<close>

fun no_products_member :: "response \<Rightarrow> bool" where
  "no_products_member FetchRejected = True"
| "no_products_member JsonRejected = True"
| "no_products_member (Body data) =
     (case get_products data of Inr (Some v) \<Rightarrow> False | _ \<Rightarrow> True)"

text \<open>The falsy values of JavaScript that a parsed body can hold.\<close>

definition falsy :: "jsvalue \<Rightarrow> bool" where
  "falsy v =
     (v = JNull \<or> v = JBool False \<or> v = JNumber (Finite 0) \<or> v = JNumber NaN \<or>
      v = JString [])"

text \<open>
  The inputs on which \<open>fetchProducts\<close> reports a failure: no response, no JSON, a falsy
  body, or a \<open>products\<close> member that is missing or falsy.
\<close>

fun fetchProducts_detects :: "response \<Rightarrow> bool" where
  "fetchProducts_detects FetchRejected = True"
| "fetchProducts_detects JsonRejected = True"
| "fetchProducts_detects (Body data) =
     (falsy data \<or> (case get_products data of Inr (Some v) \<Rightarrow> falsy v | _ \<Rightarrow> True))"

text \<open>
  The inputs on which \<open>fetchPosts\<close> reports a failure: no response, no JSON, or a
  \<open>products\<close> member that is missing or is neither an array nor a string.
\<close>

fun fetchPosts_detects :: "response \<Rightarrow> bool" where
  "fetchPosts_detects FetchRejected = True"
| "fetchPosts_detects JsonRejected = True"
| "fetchPosts_detects (Body data) =
     (case get_products data of
        Inr (Some (JArray xs)) \<Rightarrow> False
      | Inr (Some (JString t)) \<Rightarrow> False
      | _ \<Rightarrow> True)"

text \<open>
  Modelled from the spec: \<open>context/DataContext\<close> is not among the sources; the catalogue
  it holds is empty at startup. The other fields of the two states before the first
  fetch are the initial values of their \<open>useState\<close> calls.
\<close>

definition PostsList_initial :: PostsList_state where
  "PostsList_initial =
     \<lparr>products = JArray [], loading = True, error = None, searchTerm = [],
      filteredProducts = JArray []\<rparr>"

definition AppContent_initial :: AppContent_state where
  "AppContent_initial =
     \<lparr>posts = JArray [], search = [], app_loading = False, app_error = None\<rparr>"

text \<open>Concrete items for the worked examples.\<close>

definition sample_product :: "nat \<Rightarrow> string option \<Rightarrow> Product" where
  "sample_product i t =
     \<lparr>item_id = i, title = t, brand = ''Acme'', price = Finite 100,
      discountPercentage = Finite 25,
      category = ''smartphones'', description = ''A phone'', stock = 10,
      reviews = Some [\<lparr>rating = Finite 4\<rparr>, \<lparr>rating = Finite 5\<rparr>],
      warrantyInformation = ''1 year'', shippingInformation = ''Ships in 1 week'',
      item_image = ''https://example.org/p.png''\<rparr>"

definition phones :: "Product list" where
  "phones =
     [sample_product 1 (Some ''iPhone 9''),
      sample_product 2 (Some ''Samsung Galaxy''),
      sample_product 3 (Some ''Huawei Phone'')]"

text \<open>The state of \<open>PostsList\<close> once a response holding the three phones has arrived.\<close>

definition phones_loaded :: PostsList_state where
  "phones_loaded = fetchProducts (Body (JObject [(''products'', JArray phones)])) PostsList_initial"

text \<open>That state after "phone" has been typed into the search bar.\<close>

definition phone_results :: PostsList_state where
  "phone_results =
     phones_loaded\<lparr>searchTerm := ''phone'',
       filteredProducts := JArray [sample_product 1 (Some ''iPhone 9''),
                                   sample_product 3 (Some ''Huawei Phone'')]\<rparr>"



text \<open>An item with a given price and discount percentage.\<close>

definition priced :: "jsnumber \<Rightarrow> jsnumber \<Rightarrow> Product" where
  "priced p d = (sample_product 1 (Some ''Item''))\<lparr>price := p, discountPercentage := d\<rparr>"

text \<open>
  The state of \<open>AppContent\<close> once a response holding the three phones has arrived, and
  two bodies that are not a catalogue: one whose \<open>products\<close> member is \<open>null\<close>, one
  where it is a string.
\<close>

definition phones_posted :: AppContent_state where
  "phones_posted = fetchPosts (Body (JObject [(''products'', JArray phones)])) AppContent_initial"

definition null_products :: response where
  "null_products = Body (JObject [(''products'', JNull)])"

definition string_products :: response where
  "string_products = Body (JObject [(''products'', JString ''none'')])"

section \<open>Auxiliary facts about rounding\<close>

text \<open>Rounding to an integer moves by at most a half and never past an integer.\<close>

lemma rne_cases:
  "(rne q = \<lfloor>q\<rfloor> \<and> q - of_int \<lfloor>q\<rfloor> \<le> 1 / 2) \<or>
   (rne q = \<lfloor>q\<rfloor> + 1 \<and> 1 / 2 \<le> q - of_int \<lfloor>q\<rfloor>)"
  unfolding rne_def Let_def by (cases "q - of_int \<lfloor>q\<rfloor> < 1 / 2") auto

lemma rne_error: "\<bar>of_int (rne q) - q\<bar> \<le> 1 / 2"
proof -
  have "of_int \<lfloor>q\<rfloor> \<le> q" and "q < of_int \<lfloor>q\<rfloor> + 1"
    by linarith+
  with rne_cases [of q] show ?thesis by auto
qed

lemma rne_le_int:
  assumes "q \<le> of_int n"
  shows "rne q \<le> n"
proof -
  from assms have le: "\<lfloor>q\<rfloor> \<le> n" by linarith
  show ?thesis
  proof (cases "of_int \<lfloor>q\<rfloor> = q")
    case True
    then have "q - of_int \<lfloor>q\<rfloor> = 0" by linarith
    then have "rne q = \<lfloor>q\<rfloor>" unfolding rne_def Let_def by simp
    with le show ?thesis by simp
  next
    case False
    then have "of_int \<lfloor>q\<rfloor> < q" by linarith
    with assms have "of_int \<lfloor>q\<rfloor> < (of_int n :: rat)" by linarith
    then have "\<lfloor>q\<rfloor> < n" by simp
    with rne_cases [of q] show ?thesis by auto
  qed
qed

lemma rne_ge_int:
  assumes "of_int n \<le> q"
  shows "n \<le> rne q"
proof -
  from assms have "n \<le> \<lfloor>q\<rfloor>" by linarith
  with rne_cases [of q] show ?thesis by auto
qed

lemma rne_of_int: "rne (of_int n) = n"
  by (simp add: rne_def)

text \<open>The exponent is the one that brackets its argument, and it is monotone.\<close>

lemma floorlog2_bounds:
  assumes "0 < n"
  shows "(2::rat) ^ (floorlog 2 n - 1) \<le> of_nat n" and "of_nat n + 1 \<le> (2::rat) ^ floorlog 2 n"
    and "0 < floorlog 2 n"
proof -
  from floorlog_bounds [OF assms, of 2]
  have b: "2 ^ (floorlog 2 n - 1) \<le> n" "Suc n \<le> 2 ^ floorlog 2 n"
    by simp_all
  from b(1) have "(of_nat (2 ^ (floorlog 2 n - 1)) :: rat) \<le> of_nat n"
    by (rule of_nat_mono)
  then show "(2::rat) ^ (floorlog 2 n - 1) \<le> of_nat n" by simp
  from b(2) have "(of_nat (Suc n) :: rat) \<le> of_nat (2 ^ floorlog 2 n)"
    by (rule of_nat_mono)
  then show "of_nat n + 1 \<le> (2::rat) ^ floorlog 2 n" by simp
  show "0 < floorlog 2 n" using assms by (simp add: floorlog_def)
qed

lemma expo_bounds:
  assumes "0 < a"
  shows "power_int 2 (expo a) \<le> a \<and> a < power_int 2 (expo a + 1)"
proof (cases "1 \<le> a")
  case True
  define n where "n = nat \<lfloor>a\<rfloor>"
  define k where "k = floorlog 2 n"
  have n: "0 < n" using True by (simp add: n_def)
  note b = floorlog2_bounds [OF n, folded k_def]
  have e: "expo a = int k - 1" using True by (simp add: expo_def k_def n_def)
  have "of_int \<lfloor>a\<rfloor> \<le> a" "a < of_int \<lfloor>a\<rfloor> + 1" by linarith+
  moreover have "(of_nat n :: rat) = of_int \<lfloor>a\<rfloor>"
    using True by (simp add: n_def)
  ultimately have na: "of_nat n \<le> a" "a < of_nat n + 1" by simp_all
  have p1: "power_int (2::rat) (int k - 1) = 2 ^ (k - 1)"
    using b(3) by (simp add: power_int_def nat_diff_distrib')
  have p2: "power_int (2::rat) (int k - 1 + 1) = 2 ^ k"
    by simp
  from b na show ?thesis unfolding e p1 p2 by linarith
next
  case False
  define c where "c = \<lceil>1 / a\<rceil>"
  define n where "n = nat (c - 1)"
  define k where "k = floorlog 2 n"
  have y: "1 < 1 / a" using False assms by simp
  have ca: "of_int c - 1 < 1 / a" "1 / a \<le> of_int c"
    unfolding c_def by linarith+
  with y have "(1::rat) < of_int c" by linarith
  then have c: "2 \<le> c" by simp
  then have n: "0 < n" by (simp add: n_def)
  note b = floorlog2_bounds [OF n, folded k_def]
  have e: "expo a = - int k" using False by (simp add: expo_def k_def n_def c_def)
  have nc: "(of_nat n :: rat) = of_int c - 1" using c by (simp add: n_def)
  from b(1) ca nc have lo: "(2::rat) ^ (k - 1) < 1 / a" by linarith
  from b(2) ca nc have hi: "1 / a \<le> (2::rat) ^ k" by linarith
  have p1: "power_int (2::rat) (- int k) = 1 / 2 ^ k"
    by (simp add: power_int_minus field_simps)
  have eq: "- int k + 1 = - int (k - 1)" using b(3) by simp
  have p2: "power_int (2::rat) (- int k + 1) = 1 / 2 ^ (k - 1)"
    unfolding eq by (simp add: power_int_minus field_simps)
  from hi assms have "1 / 2 ^ k \<le> a"
    by (simp add: field_simps)
  moreover from lo assms have "a < 1 / 2 ^ (k - 1)"
    by (simp add: field_simps)
  ultimately show ?thesis unfolding e p1 p2 by simp
qed

lemma expo_mono:
  assumes "0 < a" "a \<le> b"
  shows "expo a \<le> expo b"
proof (rule ccontr)
  assume "\<not> expo a \<le> expo b"
  then have "expo b + 1 \<le> expo a" by simp
  then have "power_int (2::rat) (expo b + 1) \<le> power_int 2 (expo a)"
    by (rule power_int_increasing) simp
  with expo_bounds [of a] expo_bounds [of b] assms show False by linarith
qed


text \<open>
  Rounding a positive rational: the error is at most half the spacing, and the result
  does not pass a double that lies above the argument.
\<close>

lemma ulp_pos: "0 < ulp a"
  by (simp add: ulp_def)

lemma round_pos_nonneg:
  assumes "0 < a"
  shows "0 \<le> round_pos a"
proof -
  have "of_int 0 \<le> a / ulp a" using assms ulp_pos [of a] by simp
  then have "0 \<le> rne (a / ulp a)" by (rule rne_ge_int)
  then show ?thesis using ulp_pos [of a] by (simp add: round_pos_def)
qed

lemma round_pos_error: "\<bar>round_pos a - a\<bar> \<le> ulp a / 2"
proof -
  have "round_pos a - a = (of_int (rne (a / ulp a)) - a / ulp a) * ulp a"
    using ulp_pos [of a] by (simp add: round_pos_def field_simps)
  then have "\<bar>round_pos a - a\<bar> = \<bar>of_int (rne (a / ulp a)) - a / ulp a\<bar> * ulp a"
    using ulp_pos [of a] by (simp add: abs_mult)
  also have "\<dots> \<le> (1 / 2) * ulp a"
    using rne_error [of "a / ulp a"] ulp_pos [of a] by (intro mult_right_mono) simp_all
  finally show ?thesis by simp
qed

lemma ulp_half_le:
  assumes "0 < a"
  shows "ulp a / 2 \<le> a / 2 ^ 53 + 1 / 2 ^ 1075"
proof (cases "- 1022 \<le> expo a")
  case True
  then have "ulp a = power_int 2 (expo a - 52)" by (simp add: ulp_def max_def)
  also have "\<dots> = power_int 2 (expo a) / 2 ^ 52"
    by (simp add: power_int_diff)
  also have "\<dots> \<le> a / 2 ^ 52"
    using expo_bounds [OF assms] by (simp add: divide_right_mono)
  finally have "ulp a / 2 \<le> a / 2 ^ 53" by simp
  then show ?thesis by (simp add: add_increasing2)
next
  case False
  then have "ulp a = power_int 2 (- 1074)" by (simp add: ulp_def max_def)
  then have "ulp a / 2 = 1 / 2 ^ 1075" by (simp add: power_int_minus field_simps)
  with assms show ?thesis by simp
qed

lemma round_pos_le_pow:
  assumes "0 < a"
  shows "round_pos a \<le> power_int 2 (max (expo a) (- 1022) + 1)"
proof -
  define e where "e = max (expo a) (- 1022)"
  have u: "ulp a = power_int 2 (e - 52)" by (simp add: ulp_def e_def)
  have "a < power_int 2 (expo a + 1)" using expo_bounds [OF assms] by simp
  also have "\<dots> \<le> power_int 2 (e + 1)"
    by (rule power_int_increasing) (simp_all add: e_def)
  also have "\<dots> = 2 ^ 53 * ulp a"
    unfolding u by (simp add: power_int_diff power_int_add)
  finally have "a / ulp a \<le> of_int (2 ^ 53)"
    using ulp_pos [of a] by (simp add: field_simps)
  then have "rne (a / ulp a) \<le> 2 ^ 53" by (rule rne_le_int)
  then have "(of_int (rne (a / ulp a)) :: rat) \<le> of_int (2 ^ 53)"
    by (simp only: of_int_le_iff)
  then have "round_pos a \<le> 2 ^ 53 * ulp a"
    unfolding round_pos_def using ulp_pos [of a] by (intro mult_right_mono) simp_all
  also have "\<dots> = power_int 2 (e + 1)"
    unfolding u by (simp add: power_int_diff power_int_add)
  finally show ?thesis by (simp add: e_def)
qed

lemma round_pos_le:
  assumes "0 < a" "a \<le> c" "round_pos c = c"
  shows "round_pos a \<le> c"
proof -
  define ea where "ea = max (expo a) (- 1022)"
  define ec where "ec = max (expo c) (- 1022)"
  have c: "0 < c" using assms by simp
  have le: "ea \<le> ec" using expo_mono [OF assms(1,2)] by (simp add: ea_def ec_def)
  show ?thesis
  proof (cases "ea = ec")
    case True
    then have u: "ulp a = ulp c" by (simp add: ulp_def ea_def ec_def)
    have "c / ulp c = of_int (rne (c / ulp c))"
      using assms(3) ulp_pos [of c] by (simp add: round_pos_def field_simps)
    moreover have "a / ulp c \<le> c / ulp c"
      using assms(2) ulp_pos [of c] by (simp add: divide_right_mono)
    ultimately have "a / ulp c \<le> of_int (rne (c / ulp c))" by simp
    then have "rne (a / ulp c) \<le> rne (c / ulp c)" by (rule rne_le_int)
    then have "(of_int (rne (a / ulp c)) :: rat) \<le> of_int (rne (c / ulp c))"
      by (simp only: of_int_le_iff)
    then have "of_int (rne (a / ulp c)) * ulp c \<le> of_int (rne (c / ulp c)) * ulp c"
      using ulp_pos [of c] by (intro mult_right_mono) simp_all
    then show ?thesis using assms(3) by (simp add: round_pos_def u)
  next
    case False
    with le have lt: "ea + 1 \<le> ec" by simp
    then have "ec = expo c" by (simp add: ea_def ec_def max_def split: if_splits)
    have "round_pos a \<le> power_int 2 (ea + 1)"
      using round_pos_le_pow [OF assms(1)] by (simp add: ea_def)
    also have "\<dots> \<le> power_int 2 ec"
      using lt by (rule power_int_increasing) simp
    also have "\<dots> \<le> c"
      using expo_bounds [OF c] \<open>ec = expo c\<close> by simp
    finally show ?thesis .
  qed
qed

text \<open>
  An operation whose exact result lies between 0 and a double \<open>c\<close> yields a finite
  number between 0 and \<open>c\<close>, off the exact result by a relative \<open>2^-53\<close> at most (an
  absolute \<open>2^-1075\<close> in the subnormal range).
\<close>

lemma expo_0: "expo 0 = 0"
  by (simp add: expo_def floorlog_def)

lemma is_double_pos: "0 < c \<Longrightarrow> is_double c \<Longrightarrow> round_pos c = c \<and> expo c < 1024"
  by (auto simp: is_double_def fl_def split: if_splits)

lemma fl_between:
  assumes "0 \<le> x" "x \<le> c" "is_double c"
  shows "\<exists>v. fl x = Finite v \<and> 0 \<le> v \<and> v \<le> c \<and> \<bar>v - x\<bar> \<le> x / 2 ^ 53 + 1 / 2 ^ 1075"
proof (cases "x = 0")
  case True
  with assms show ?thesis by (simp add: fl_def)
next
  case False
  with assms have x: "0 < x" and c: "0 < c" by simp_all
  from is_double_pos [OF c assms(3)] have rc: "round_pos c = c" and fin: "expo c < 1024"
    by simp_all
  have le: "round_pos x \<le> c" using x assms(2) rc by (rule round_pos_le)
  have "expo (round_pos x) < 1024"
  proof (cases "round_pos x = 0")
    case True
    then show ?thesis by (simp add: expo_0)
  next
    case False
    with round_pos_nonneg [OF x] have "0 < round_pos x" by simp
    from expo_mono [OF this le] fin show ?thesis by simp
  qed
  then have "fl x = Finite (round_pos x)" using x by (simp add: fl_def)
  moreover have "\<bar>round_pos x - x\<bar> \<le> x / 2 ^ 53 + 1 / 2 ^ 1075"
    using round_pos_error [of x] ulp_half_le [OF x] by linarith
  ultimately show ?thesis using le round_pos_nonneg [OF x] by simp
qed

lemma is_double_1: "is_double 1"
  unfolding is_double_def by code_simp

lemma is_double_100: "is_double 100"
  unfolding is_double_def by code_simp

section \<open>Auxiliary facts about the filter\<close>

text \<open>The library's \<open>sublist\<close> is the contiguous one.\<close>

lemma string_includes_iff: "string_includes s t \<longleftrightarrow> (\<exists>ps ss. s = ps @ t @ ss)"
  by (simp add: string_includes_def sublist_def)

lemma array_filter_total:
  "(\<exists>ys. array_filter f xs = Inr ys) \<longleftrightarrow> (\<forall>x\<in>set xs. \<exists>b. f x = Inr b)"
  by (induction xs) (auto split: sum.splits)

lemma array_filter_eq:
  "\<forall>x\<in>set xs. f x = Inr (P x) \<Longrightarrow> array_filter f xs = Inr (filter P xs)"
  by (induction xs) auto

lemma title_matches_titled:
  "title p \<noteq> None \<Longrightarrow> title_matches q p = Inr (name_contains q p)"
  by (auto simp: title_matches_def name_contains_def)

lemma title_matches_Inr_iff: "(\<exists>b. title_matches q p = Inr b) \<longleftrightarrow> title p \<noteq> None"
  by (auto simp: title_matches_def split: option.splits)

lemma array_filter_titled:
  "all_titled L \<Longrightarrow> array_filter (title_matches q) L = Inr (filter (name_contains q) L)"
  by (rule array_filter_eq) (simp add: all_titled_def list_all_iff title_matches_titled)

lemma array_filter_succeeds_iff:
  "(\<exists>F. array_filter (title_matches q) L = Inr F) \<longleftrightarrow> all_titled L"
  by (simp add: array_filter_total title_matches_Inr_iff all_titled_def list_all_iff)

lemma name_contains_empty: "title p \<noteq> None \<Longrightarrow> name_contains [] p"
  by (auto simp: name_contains_def string_includes_def toLowerCase_def)

lemma filter_empty_query: "all_titled L \<Longrightarrow> filter (name_contains []) L = L"
  by (induction L) (auto simp: all_titled_def name_contains_empty)

lemma all_titled_filter: "all_titled L \<Longrightarrow> all_titled (filter P L)"
  by (simp add: all_titled_def list_all_iff)

text \<open>On a list whose items all have a name, the handler is the plain list filter.\<close>

lemma handleSearch_titled:
  "products s = JArray L \<Longrightarrow> all_titled L \<Longrightarrow>
   handleSearch q s =
     Inr (s\<lparr>searchTerm := q, filteredProducts := JArray (filter (name_contains q) L)\<rparr>)"
  by (simp add: handleSearch_def Let_def array_filter_titled filter_empty_query)

lemma handleSearch_succeeds_iff:
  "products s = JArray L \<Longrightarrow>
   (\<exists>s'. handleSearch q s = Inr s') \<longleftrightarrow> (q = [] \<or> all_titled L)"
  using array_filter_succeeds_iff [of q L]
  by (auto simp: handleSearch_def Let_def split: sum.splits)

text \<open>The handler never writes to the store.\<close>

lemma handleSearch_products:
  "handleSearch q s = Inr s' \<Longrightarrow> products s' = products s \<and> searchTerm s' = q"
  by (auto simp: handleSearch_def Let_def split: sum.splits if_splits)

text \<open>A successful call of the handler, by cases on the query.\<close>

lemma handleSearch_cases:
  assumes "handleSearch q s = Inr s'"
  shows "(q = [] \<and> s' = s\<lparr>searchTerm := q, filteredProducts := products s\<rparr>) \<or>
         (\<exists>L. q \<noteq> [] \<and> products s = JArray L \<and> all_titled L \<and>
              s' = s\<lparr>searchTerm := q, filteredProducts := JArray (filter (name_contains q) L)\<rparr>)"
proof (cases "q = []")
  case True
  with assms show ?thesis by (auto simp: handleSearch_def Let_def)
next
  case False
  with assms obtain L where L: "products s = JArray L"
    by (cases "products s") (auto simp: handleSearch_def Let_def)
  with assms False have "all_titled L"
    using handleSearch_succeeds_iff [of s L q] by blast
  with assms L False show ?thesis by (simp add: handleSearch_titled)
qed

lemma visible_store_only: "products s1 = products s2 \<Longrightarrow> visible q s1 = visible q s2"
  by (auto simp: visible_def handleSearch_def Let_def split: sum.splits)

subsection \<open>The worked example\<close>

lemma phones_titled: "all_titled phones"
  by (simp add: all_titled_def phones_def sample_product_def)

lemma phones_loaded_eq:
  "phones_loaded =
     \<lparr>products = JArray phones, loading = False, error = None, searchTerm = [],
      filteredProducts = JArray phones\<rparr>"
  by (simp add: phones_loaded_def fetchProducts_def fetchProducts_try_def data_and_products_def
      PostsList_initial_def)

lemma phones_loaded_products: "products phones_loaded = JArray phones"
  by (simp add: phones_loaded_eq)

text \<open>
  Typing "phone" over the titles iPhone 9, Samsung Galaxy, Huawei Phone shows the first
  and the third, in that order.
\<close>

lemma phone_scenario: "handleSearch ''phone'' phones_loaded = Inr phone_results"
proof -
  have "filter (name_contains ''phone'') phones =
          [sample_product 1 (Some ''iPhone 9''), sample_product 3 (Some ''Huawei Phone'')]"
    by code_simp
  with handleSearch_titled [OF phones_loaded_products phones_titled, of "''phone''"]
  show ?thesis by (simp add: phone_results_def)
qed

lemma phone_results_visible:
  "filteredProducts phone_results =
     JArray [sample_product 1 (Some ''iPhone 9''), sample_product 3 (Some ''Huawei Phone'')]"
  by (simp add: phone_results_def)

section \<open>Auxiliary facts about the fetches and the derived figures\<close>

lemma truthy_falsy: "truthy v \<longleftrightarrow> \<not> falsy v"
  by (cases v) (auto simp: falsy_def)

text \<open>Where a fetch reports a failure it ends in one of its failure branches.\<close>

lemma fetchProducts_detected:
  "fetchProducts_detects r \<Longrightarrow>
   fetchProducts r s = s\<lparr>error := Some ''No products found.'', loading := False\<rparr> \<or>
   fetchProducts r s = s\<lparr>error := Some ''Failed to load products.'', loading := False\<rparr>"
  by (cases r)
     (auto simp: fetchProducts_def fetchProducts_try_def data_and_products_def truthy_falsy
           split: sum.splits option.splits)

lemma fetchPosts_detected:
  "fetchPosts_detects r \<Longrightarrow>
   fetchPosts r t =
     t\<lparr>app_error := Some ''Failed to fetch products. Please try again.'', app_loading := False\<rparr>"
  by (cases r)
     (auto simp: fetchPosts_def fetchPosts_try_def Let_def
           split: sum.splits option.splits jsvalue.splits)

text \<open>Everywhere else it writes \<open>data.products\<close> to the store and sets no message.\<close>

lemma fetchProducts_undetected:
  "\<not> fetchProducts_detects r \<Longrightarrow>
   \<exists>data v. r = Body data \<and> get_products data = Inr (Some v) \<and>
     fetchProducts r s = s\<lparr>products := v, filteredProducts := v, loading := False\<rparr>"
  by (cases r)
     (auto simp: fetchProducts_def fetchProducts_try_def data_and_products_def truthy_falsy
           split: sum.splits option.splits)

lemma fetchPosts_undetected:
  "\<not> fetchPosts_detects r \<Longrightarrow>
   \<exists>data w v. r = Body data \<and> get_products data = Inr (Some w) \<and>
     slice_0_30 (Some w) = Inr v \<and>
     fetchPosts r t = t\<lparr>app_error := None, posts := v, app_loading := False\<rparr>"
  by (cases r)
     (auto simp: fetchPosts_def fetchPosts_try_def Let_def
           split: sum.splits option.splits jsvalue.splits)

lemma no_products_member_detected:
  "no_products_member r \<Longrightarrow> fetchProducts_detects r \<and> fetchPosts_detects r"
  by (cases r) (auto split: sum.splits option.splits)



lemma phones_posted_eq:
  "phones_posted =
     \<lparr>posts = JArray phones, search = [], app_loading = False, app_error = None\<rparr>"
  by (simp add: phones_posted_def fetchPosts_def fetchPosts_try_def Let_def
      AppContent_initial_def phones_def)

text \<open>
  Where the item has no \<open>reviews\<close> property the average rating is 0; the two ratings 4
  and 5 give 4.5.
\<close>

lemma averageRating_absent: "reviews item = None \<Longrightarrow> averageRating item = Finite 0"
  by (simp add: averageRating_def)

lemma averageRating_sample: "averageRating (sample_product 1 None) = Finite (9 / 2)"
  by code_simp

section \<open>Properties\<close>

text \<open>
  C1, as the code has it. The claim keeps the store and sets a message on every failed
  fetch, a malformed body included. A body whose \<open>products\<close> member is a string is
  malformed, and on it both fetches overwrite the stored phones and set no message.
\<close>

theorem fetch_wrong_shape_overwrites:
  "fetch_failure string_products \<and>
   products phones_loaded = JArray phones \<and>
   products (fetchProducts string_products phones_loaded) = JString ''none'' \<and>
   error (fetchProducts string_products phones_loaded) = None \<and>
   posts phones_posted = JArray phones \<and>
   posts (fetchPosts string_products phones_posted) = JString ''none'' \<and>
   app_error (fetchPosts string_products phones_posted) = None"
  by (simp add: string_products_def malformed_body_def phones_loaded_eq phones_posted_eq
      fetchProducts_def fetchProducts_try_def data_and_products_def
      fetchPosts_def fetchPosts_try_def Let_def)

text \<open>
  C1, amended. Each fetch reports a failure on the inputs it tests for, and there it
  leaves the stored list as it was and sets the message to a string: \<open>fetchProducts\<close>
  when the request is rejected, the body is not JSON, the body is falsy, or its
  \<open>products\<close> member is missing or falsy; \<open>fetchPosts\<close> when the request is rejected,
  the body is not JSON, or the \<open>products\<close> member is missing or is neither an array nor
  a string. Both report a failure whenever there is no \<open>products\<close> member at all. On
  every other input no failure is reported: \<open>fetchProducts\<close> leaves the message as it
  was and stores \<open>data.products\<close>, \<open>fetchPosts\<close> clears the message and stores the
  first 30 elements of \<open>json.products\<close>.
\<close>

theorem fetch_detected_failure_keeps_store:
  "(fetchProducts_detects r \<longrightarrow>
      products (fetchProducts r s) = products s \<and>
      filteredProducts (fetchProducts r s) = filteredProducts s \<and>
      error (fetchProducts r s) \<noteq> None) \<and>
   (fetchPosts_detects r \<longrightarrow>
      posts (fetchPosts r t) = posts t \<and> app_error (fetchPosts r t) \<noteq> None) \<and>
   (no_products_member r \<longrightarrow> fetchProducts_detects r \<and> fetchPosts_detects r) \<and>
   (\<not> fetchProducts_detects r \<longrightarrow>
      error (fetchProducts r s) = error s \<and>
      (\<exists>data v. r = Body data \<and> get_products data = Inr (Some v) \<and>
         products (fetchProducts r s) = v)) \<and>
   (\<not> fetchPosts_detects r \<longrightarrow>
      app_error (fetchPosts r t) = None \<and>
      (\<exists>data w. r = Body data \<and> get_products data = Inr (Some w) \<and>
         slice_0_30 (Some w) = Inr (posts (fetchPosts r t))))"
proof (intro conjI impI)
  assume d: "fetchProducts_detects r"
  from fetchProducts_detected [OF d, of s]
  show "products (fetchProducts r s) = products s"
    and "filteredProducts (fetchProducts r s) = filteredProducts s"
    and "error (fetchProducts r s) \<noteq> None"
    by auto
next
  assume d: "fetchPosts_detects r"
  from fetchPosts_detected [OF d, of t]
  show "posts (fetchPosts r t) = posts t" and "app_error (fetchPosts r t) \<noteq> None"
    by simp_all
next
  assume "no_products_member r"
  then show "fetchProducts_detects r" and "fetchPosts_detects r"
    by (simp_all add: no_products_member_detected)
next
  assume u: "\<not> fetchProducts_detects r"
  from fetchProducts_undetected [OF u, of s]
  show "error (fetchProducts r s) = error s"
    and "\<exists>data v. r = Body data \<and> get_products data = Inr (Some v) \<and>
           products (fetchProducts r s) = v"
    by auto
next
  assume u: "\<not> fetchPosts_detects r"
  from fetchPosts_undetected [OF u, of t]
  show "app_error (fetchPosts r t) = None"
    and "\<exists>data w. r = Body data \<and> get_products data = Inr (Some w) \<and>
           slice_0_30 (Some w) = Inr (posts (fetchPosts r t))"
    by auto
qed

theorem fetch_detected_failure_keeps_store_witness:
  "fetchProducts_detects null_products \<and> fetchPosts_detects null_products \<and>
   products (fetchProducts null_products phones_loaded) = JArray phones \<and>
   error (fetchProducts null_products phones_loaded) = Some ''No products found.'' \<and>
   posts (fetchPosts null_products phones_posted) = JArray phones \<and>
   app_error (fetchPosts null_products phones_posted)
     = Some ''Failed to fetch products. Please try again.'' \<and>
   no_products_member FetchRejected \<and>
   products (fetchProducts FetchRejected phones_loaded) = JArray phones \<and>
   error (fetchProducts FetchRejected phones_loaded) = Some ''Failed to load products.'' \<and>
   \<not> fetchProducts_detects string_products \<and> \<not> fetchPosts_detects string_products \<and>
   error (fetchProducts string_products phones_loaded) = None \<and>
   app_error (fetchPosts string_products phones_posted) = None"
proof -
  have d: "fetchProducts_detects null_products" "fetchPosts_detects null_products"
    by (simp_all add: null_products_def falsy_def)
  have u: "\<not> fetchProducts_detects string_products" "\<not> fetchPosts_detects string_products"
    by (simp_all add: string_products_def falsy_def)
  note a = fetch_detected_failure_keeps_store [of null_products phones_loaded phones_posted]
  note b = fetch_detected_failure_keeps_store [of FetchRejected phones_loaded phones_posted]
  note c = fetch_detected_failure_keeps_store [of string_products phones_loaded phones_posted]
  have "products (fetchProducts null_products phones_loaded) = JArray phones"
    using a d by (simp add: phones_loaded_products)
  moreover have "posts (fetchPosts null_products phones_posted) = JArray phones"
    using a d by (simp add: phones_posted_eq)
  moreover have "products (fetchProducts FetchRejected phones_loaded) = JArray phones"
    using b by (simp add: phones_loaded_products)
  moreover have "error (fetchProducts string_products phones_loaded) = None"
    using c u by (simp add: phones_loaded_eq)
  moreover have "app_error (fetchPosts string_products phones_posted) = None"
    using c u by simp
  moreover have "error (fetchProducts null_products phones_loaded) = Some ''No products found.''"
    by (simp add: null_products_def fetchProducts_def fetchProducts_try_def
        data_and_products_def)
  moreover have "app_error (fetchPosts null_products phones_posted)
                   = Some ''Failed to fetch products. Please try again.''"
    by (simp add: null_products_def fetchPosts_def fetchPosts_try_def Let_def)
  moreover have "error (fetchProducts FetchRejected phones_loaded)
                   = Some ''Failed to load products.''"
    by (simp add: fetchProducts_def fetchProducts_try_def)
  ultimately show ?thesis using d u by simp
qed

text \<open>
  C2, as the code has it. The claim says that the filter never fails and that an item
  without a display name is matched as if its name were empty. The handler has no such
  fallback: with a non-empty query it dereferences the absent title and raises.
\<close>

theorem handleSearch_untitled_raises:
  "handleSearch ''a'' (PostsList_initial\<lparr>products := JArray [sample_product 1 None]\<rparr>)
     = Inl TypeError"
  by (simp add: handleSearch_def Let_def PostsList_initial_def sample_product_def
      title_matches_def)

text \<open>
  C2, amended. On a stored item list the handler completes without an exception exactly
  when the query is empty (no name is read) or every item has a display name.
\<close>

theorem handleSearch_total_iff:
  "products s = JArray L \<Longrightarrow>
   (\<exists>s'. handleSearch q s = Inr s') \<longleftrightarrow> (q = [] \<or> all_titled L)"
proof (cases "q = []")
  case True
  then show ?thesis by (simp add: handleSearch_def Let_def)
next
  case False
  assume store: "products s = JArray L"
  have "(\<exists>s'. handleSearch q s = Inr s') \<longleftrightarrow> (\<exists>F. array_filter (title_matches q) L = Inr F)"
    using False store by (auto simp: handleSearch_def Let_def split: sum.splits)
  with False show ?thesis by (simp add: array_filter_succeeds_iff)
qed

theorem handleSearch_total_iff_witness:
  "products phones_loaded = JArray phones \<and> all_titled phones \<and>
   (\<exists>s'. handleSearch ''phone'' phones_loaded = Inr s')"
  using handleSearch_total_iff [OF phones_loaded_products, of "''phone''"]
    phones_titled phones_loaded_products
  by simp

text \<open>
  C3, at an item whose \<open>reviews\<close> array is present and empty. The claim gives such an
  item the average 0. The source guards the division with a truthiness test, which an
  empty array passes, and the division of 0 by the length 0 is \<open>NaN\<close>.
\<close>

theorem averageRating_empty_reviews:
  "averageRating (item\<lparr>reviews := Some []\<rparr>) = NaN"
  by (simp add: averageRating_def)

text \<open>
  C4, as the code has it. The claim equates the discounted price with
  price * (1 - percentage / 100). The source computes price - price * (percentage / 100)
  in doubles: for the price 3 and the percentage 19 it yields 2.4299999999999997, which
  is neither the exact product 2.43 nor what the claimed expression yields in doubles.
  And for a price read as \<open>Infinity\<close>, which is not negative, it yields \<open>NaN\<close>, which is
  not a number at or above 0.
\<close>

theorem discountedPrice_not_the_product:
  "discountedPrice (priced (Finite 3) (Finite 19))
     = Finite (341992096703447 / 140737488355328) \<and>
   js_mul (Finite 3) (js_sub (Finite 1) (js_div (Finite 19) (Finite 100)))
     = Finite (5471873547255153 / 2251799813685248) \<and>
   (341992096703447 / 140737488355328 :: rat) \<noteq> 3 * (1 - 19 / 100) \<and>
   (341992096703447 / 140737488355328 :: rat) \<noteq> 5471873547255153 / 2251799813685248 \<and>
   discountedPrice (priced PosInfinity (Finite 25)) = NaN"
proof -
  have "discountedPrice (priced (Finite 3) (Finite 19))
          = Finite (341992096703447 / 140737488355328)"
    by code_simp
  moreover have "js_mul (Finite 3) (js_sub (Finite 1) (js_div (Finite 19) (Finite 100)))
                   = Finite (5471873547255153 / 2251799813685248)"
    by code_simp
  moreover have "discountedPrice (priced PosInfinity (Finite 25)) = NaN"
    by code_simp
  ultimately show ?thesis by simp
qed

text \<open>
  C4, amended. For an item whose price is a finite number that is not negative and
  whose discount percentage is between 0 and 100, the discounted price is a finite
  number between 0 and the price (so clamping it at 0 changes nothing), and it differs
  from price * (1 - percentage / 100) by rounding only: by at most
  price / 2^51 + 1 / 2^1074.
\<close>

theorem discountedPrice_spec:
  assumes "price item = Finite p" and "is_double p" and "0 \<le> p"
    and "discountPercentage item = Finite d" and "0 \<le> d" and "d \<le> 100"
  shows "\<exists>r. discountedPrice item = Finite r \<and> 0 \<le> r \<and> r \<le> p \<and> max 0 r = r \<and>
              \<bar>r - p * (1 - d / 100)\<bar> \<le> p / 2 ^ 51 + 1 / 2 ^ 1074"
proof -
  define eps :: rat where "eps = 1 / 2 ^ 53"
  define tiny :: rat where "tiny = 1 / 2 ^ 1075"
  have eps: "0 < eps" and tiny: "0 < tiny" by (simp_all add: eps_def tiny_def)
  have tiny_eps: "tiny \<le> eps"
    unfolding eps_def tiny_def by (intro divide_left_mono power_increasing) simp_all
  have e4: "1 / 2 ^ 51 = 4 * eps" and t2: "1 / 2 ^ 1074 = 2 * tiny"
    by (simp_all add: eps_def tiny_def)
  have "0 \<le> d / 100" "d / 100 \<le> 1" using assms(5,6) by simp_all
  from fl_between [OF this is_double_1]
  obtain t where t: "fl (d / 100) = Finite t" "0 \<le> t" "t \<le> 1"
    and te: "\<bar>t - d / 100\<bar> \<le> (d / 100) * eps + tiny"
    by (auto simp: eps_def tiny_def)
  have "0 \<le> p * t" "p * t \<le> p"
    using assms(3) t by (simp_all add: mult_left_le)
  from fl_between [OF this assms(2)]
  obtain m where m: "fl (p * t) = Finite m" "0 \<le> m" "m \<le> p"
    and me: "\<bar>m - p * t\<bar> \<le> (p * t) * eps + tiny"
    by (auto simp: eps_def tiny_def)
  have "0 \<le> p - m" "p - m \<le> p" using m by simp_all
  from fl_between [OF this assms(2)]
  obtain r where r: "fl (p - m) = Finite r" "0 \<le> r" "r \<le> p"
    and re: "\<bar>r - (p - m)\<bar> \<le> (p - m) * eps + tiny"
    by (auto simp: eps_def tiny_def)
  have run: "discountedPrice item = Finite r"
    by (simp add: discountedPrice_def assms(1,4) t m r)
  have b1: "(d / 100) * eps + tiny \<le> eps + tiny"
    using \<open>d / 100 \<le> 1\<close> eps by (simp add: mult_left_le_one_le)
  have b2: "(p * t) * eps + tiny \<le> p * eps + tiny"
    using \<open>p * t \<le> p\<close> eps by (simp add: mult_right_mono)
  have b3: "(p - m) * eps + tiny \<le> p * eps + tiny"
    using \<open>p - m \<le> p\<close> eps by (simp add: mult_right_mono)
  have "\<bar>p * (t - d / 100)\<bar> = p * \<bar>t - d / 100\<bar>"
    using assms(3) by (simp add: abs_mult)
  also have "\<dots> \<le> p * (eps + tiny)"
    using te b1 assms(3) by (intro mult_left_mono) simp_all
  also have "\<dots> \<le> p * (2 * eps)"
    using tiny_eps assms(3) by (intro mult_left_mono) simp_all
  finally have pt: "\<bar>p * (t - d / 100)\<bar> \<le> 2 * (p * eps)" by simp
  have split: "r - p * (1 - d / 100) = (r - (p - m)) - (m - p * t) - p * (t - d / 100)"
    by (simp add: algebra_simps)
  have tri: "\<bar>a - b - c\<bar> \<le> \<bar>a\<bar> + \<bar>b\<bar> + \<bar>c\<bar>" for a b c :: rat
    by (rule order_trans [OF abs_triangle_ineq4]) (simp add: abs_triangle_ineq4)
  have "\<bar>r - p * (1 - d / 100)\<bar>
          \<le> \<bar>r - (p - m)\<bar> + \<bar>m - p * t\<bar> + \<bar>p * (t - d / 100)\<bar>"
    unfolding split by (rule tri)
  also have "\<dots> \<le> (p * eps + tiny) + (p * eps + tiny) + 2 * (p * eps)"
    using re b3 me b2 pt by linarith
  also have "\<dots> = p * (4 * eps) + 2 * tiny" by (simp add: algebra_simps)
  finally have "\<bar>r - p * (1 - d / 100)\<bar> \<le> p / 2 ^ 51 + 1 / 2 ^ 1074"
    using e4 t2 by (metis times_divide_eq_right mult.right_neutral)
  with run r show ?thesis by auto
qed

text \<open>The price 100 with the discount 25 gives 75, with no rounding at all.\<close>

theorem discountedPrice_spec_witness:
  "price (priced (Finite 100) (Finite 25)) = Finite 100 \<and> is_double 100 \<and>
   discountPercentage (priced (Finite 100) (Finite 25)) = Finite 25 \<and>
   discountedPrice (priced (Finite 100) (Finite 25)) = Finite 75 \<and>
   \<bar>75 - 100 * (1 - 25 / 100)\<bar> \<le> (100 / 2 ^ 51 + 1 / 2 ^ 1074 :: rat)"
proof -
  have p: "price (priced (Finite 100) (Finite 25)) = Finite 100"
    and d: "discountPercentage (priced (Finite 100) (Finite 25)) = Finite 25"
    by (simp_all add: priced_def)
  have v: "discountedPrice (priced (Finite 100) (Finite 25)) = Finite 75"
    by code_simp
  from discountedPrice_spec [OF p is_double_100 _ d]
  obtain r where "discountedPrice (priced (Finite 100) (Finite 25)) = Finite r"
    and "\<bar>r - 100 * (1 - 25 / 100)\<bar> \<le> 100 / 2 ^ 51 + 1 / 2 ^ 1074"
    by auto
  with v have "\<bar>75 - 100 * (1 - 25 / 100)\<bar> \<le> (100 / 2 ^ 51 + 1 / 2 ^ 1074 :: rat)"
    by simp
  with p d v is_double_100 show ?thesis by simp
qed

text \<open>
  C5. For every list of items with display names and every query, the handler returns,
  every item of the visible list has a display name whose lower-case form contains the
  lower-case form of the query, and for a non-empty query every item of the store with
  that property is in the visible list.
\<close>

theorem handleSearch_matches:
  assumes "products s = JArray L" and "all_titled L"
  shows "\<exists>F. handleSearch q s = Inr (s\<lparr>searchTerm := q, filteredProducts := JArray F\<rparr>) \<and>
             (\<forall>p\<in>set F. name_contains q p) \<and>
             (q \<noteq> [] \<longrightarrow> (\<forall>p\<in>set L. name_contains q p \<longrightarrow> p \<in> set F))"
proof -
  let ?F = "filter (name_contains q) L"
  have "handleSearch q s = Inr (s\<lparr>searchTerm := q, filteredProducts := JArray ?F\<rparr>)"
    using assms by (rule handleSearch_titled)
  moreover have "\<forall>p\<in>set ?F. name_contains q p" by simp
  moreover have "\<forall>p\<in>set L. name_contains q p \<longrightarrow> p \<in> set ?F" by simp
  ultimately show ?thesis by blast
qed

theorem handleSearch_matches_witness:
  "products phones_loaded = JArray phones \<and> all_titled phones \<and>
   handleSearch ''phone'' phones_loaded = Inr phone_results \<and>
   name_contains ''phone'' (sample_product 1 (Some ''iPhone 9'')) \<and>
   name_contains ''phone'' (sample_product 3 (Some ''Huawei Phone''))"
proof -
  from handleSearch_matches [OF phones_loaded_products phones_titled, of "''phone''"]
  obtain F where run: "handleSearch ''phone'' phones_loaded
                         = Inr (phones_loaded\<lparr>searchTerm := ''phone'', filteredProducts := JArray F\<rparr>)"
    and all: "\<forall>p\<in>set F. name_contains ''phone'' p"
    by blast
  from run phone_scenario
  have "phone_results = phones_loaded\<lparr>searchTerm := ''phone'', filteredProducts := JArray F\<rparr>"
    by simp
  then have "filteredProducts phone_results
               = filteredProducts (phones_loaded\<lparr>searchTerm := ''phone'', filteredProducts := JArray F\<rparr>)"
    by (rule arg_cong)
  then have "F = [sample_product 1 (Some ''iPhone 9''), sample_product 3 (Some ''Huawei Phone'')]"
    by (simp add: phone_results_visible)
  with all phone_scenario phones_titled phones_loaded_products show ?thesis
    by simp
qed

text \<open>
  C6. The visible list is a subsequence of the stored list: whenever the handler returns,
  the visible list is obtained from the stored one by deleting items, so every visible
  item is a stored item and the order is kept; and on a list of items with display
  names the handler does return.
\<close>

theorem handleSearch_subseq:
  assumes "products s = JArray L"
  shows "(all_titled L \<longrightarrow> (\<exists>s'. handleSearch q s = Inr s')) \<and>
         (\<forall>s'. handleSearch q s = Inr s' \<longrightarrow>
            (\<exists>F. filteredProducts s' = JArray F \<and> subseq F L \<and> set F \<subseteq> set L))"
proof (intro conjI allI impI)
  assume "all_titled L"
  with assms show "\<exists>s'. handleSearch q s = Inr s'"
    by (simp add: handleSearch_succeeds_iff)
next
  fix s' assume run: "handleSearch q s = Inr s'"
  show "\<exists>F. filteredProducts s' = JArray F \<and> subseq F L \<and> set F \<subseteq> set L"
  proof (cases "q = []")
    case True
    with run assms have "filteredProducts s' = JArray L"
      by (auto simp: handleSearch_def Let_def)
    then show ?thesis by auto
  next
    case False
    with run assms have "all_titled L"
      using handleSearch_succeeds_iff [of s L q] by blast
    with run assms have "filteredProducts s' = JArray (filter (name_contains q) L)"
      by (auto simp: handleSearch_titled)
    then show ?thesis by auto
  qed
qed

theorem handleSearch_subseq_witness:
  "products phones_loaded = JArray phones \<and>
   handleSearch ''phone'' phones_loaded = Inr phone_results \<and>
   subseq [sample_product 1 (Some ''iPhone 9''), sample_product 3 (Some ''Huawei Phone'')] phones"
proof -
  from handleSearch_subseq [OF phones_loaded_products, of "''phone''"] phone_scenario
  obtain F where "filteredProducts phone_results = JArray F" and "subseq F phones"
    by blast
  then have "subseq [sample_product 1 (Some ''iPhone 9''), sample_product 3 (Some ''Huawei Phone'')]
               phones"
    by (simp add: phone_results_visible)
  with phone_scenario phones_loaded_products show ?thesis
    by simp
qed

text \<open>
  C7. The empty query is an identity for the filter: whatever the store holds,
  \<open>handleSearch\<close> with the empty text succeeds and makes the visible list the stored
  list itself, unchanged and in the same order.
\<close>

theorem handleSearch_empty_query:
  "handleSearch [] s = Inr (s\<lparr>searchTerm := [], filteredProducts := products s\<rparr>)"
  by (simp add: handleSearch_def)

text \<open>
  C8. Filtering is idempotent: when the handler returns a visible list for a query,
  running it with the same query on a store that holds that visible list returns the
  same visible list again; and on a list of items with display names the first call
  does return.
\<close>

theorem handleSearch_idempotent:
  "(\<forall>s'. handleSearch q s = Inr s' \<longrightarrow>
      handleSearch q (s'\<lparr>products := filteredProducts s'\<rparr>)
        = Inr (s'\<lparr>products := filteredProducts s'\<rparr>)) \<and>
   (\<forall>L. products s = JArray L \<and> all_titled L \<longrightarrow> (\<exists>s'. handleSearch q s = Inr s'))"
proof (intro conjI allI impI)
  fix s' assume run: "handleSearch q s = Inr s'"
  from handleSearch_cases [OF run]
  show "handleSearch q (s'\<lparr>products := filteredProducts s'\<rparr>)
          = Inr (s'\<lparr>products := filteredProducts s'\<rparr>)"
  proof (elim disjE conjE exE)
    assume "q = []" "s' = s\<lparr>searchTerm := q, filteredProducts := products s\<rparr>"
    then show ?thesis by (simp add: handleSearch_def Let_def)
  next
    fix L assume "q \<noteq> []" "products s = JArray L" and t: "all_titled L"
      and s': "s' = s\<lparr>searchTerm := q, filteredProducts := JArray (filter (name_contains q) L)\<rparr>"
    have "products (s'\<lparr>products := filteredProducts s'\<rparr>) = JArray (filter (name_contains q) L)"
      by (simp add: s')
    from handleSearch_titled [OF this all_titled_filter [OF t], of q]
    show ?thesis by (simp add: s')
  qed
next
  fix L assume "products s = JArray L \<and> all_titled L"
  then show "\<exists>s'. handleSearch q s = Inr s'"
    by (simp add: handleSearch_succeeds_iff)
qed

theorem handleSearch_idempotent_witness:
  "handleSearch ''phone'' phones_loaded = Inr phone_results \<and>
   handleSearch ''phone'' (phone_results\<lparr>products := filteredProducts phone_results\<rparr>)
     = Inr (phone_results\<lparr>products := filteredProducts phone_results\<rparr>)"
  using handleSearch_idempotent [of "''phone''" phones_loaded] phone_scenario
  by blast




text \<open>
  C10. The visible list after a search-text change is a function of the stored list and
  the new text alone: two states with the same store give the same visible list (or the
  same exception), whatever their earlier search text and visible list; and since the
  handler leaves the store as it was, a search made after another search sees what a
  search made at once would see.
\<close>

theorem handleSearch_depends_on_store_only:
  "(products s1 = products s2 \<longrightarrow> visible q s1 = visible q s2) \<and>
   (handleSearch q0 s = Inr s0 \<longrightarrow> products s0 = products s \<and> visible q s0 = visible q s)"
  using handleSearch_products [of q0 s s0] visible_store_only by blast

theorem handleSearch_depends_on_store_only_witness:
  "handleSearch ''phone'' phones_loaded = Inr phone_results \<and>
   products phone_results = products phones_loaded \<and>
   visible [] phone_results = visible [] phones_loaded \<and>
   visible [] phone_results = Inr (JArray phones)"
proof -
  have all: "visible [] phones_loaded = Inr (JArray phones)"
    by (simp add: visible_def handleSearch_def Let_def phones_loaded_products)
  from handleSearch_depends_on_store_only
         [of phones_loaded phones_loaded "[]" "''phone''" phones_loaded phone_results]
  have "handleSearch ''phone'' phones_loaded = Inr phone_results \<longrightarrow>
        products phone_results = products phones_loaded \<and>
        visible [] phone_results = visible [] phones_loaded"
    by (rule conjunct2)
  with phone_scenario all show ?thesis by simp
qed

end
